theory Spec2Isabelle
  imports Main "HOL-Library.Word"
begin

section \<open>JavaScript strings and the built-ins the controller calls\<close>

text \<open>
  A JavaScript string is a sequence of UTF-16 code units. \<open>js\<close> turns an ASCII
  literal into such a sequence, so that examples stay readable.
\<close>

type_synonym code_unit = "16 word"
type_synonym jsstring = "code_unit list"

definition js :: "string \<Rightarrow> jsstring" where
  "js s = map of_char s"

text \<open>
  \<open>String.prototype.trim\<close> and the first step of \<open>parseInt\<close> strip the code
  units of ECMAScript's WhiteSpace and LineTerminator productions: TAB, VT, FF, SP,
  NBSP, ZWNBSP and the Unicode space separators, then LF, CR, LS and PS. All of them
  are single code units.
\<close>

definition WhiteSpace :: "code_unit \<Rightarrow> bool" where
  "WhiteSpace c \<longleftrightarrow>
     c = 0x0009 \<or> c = 0x000B \<or> c = 0x000C \<or> c = 0x0020 \<or> c = 0x00A0 \<or>
     c = 0xFEFF \<or> c = 0x1680 \<or> (0x2000 \<le> c \<and> c \<le> 0x200A) \<or>
     c = 0x202F \<or> c = 0x205F \<or> c = 0x3000"

definition LineTerminator :: "code_unit \<Rightarrow> bool" where
  "LineTerminator c \<longleftrightarrow> c = 0x000A \<or> c = 0x000D \<or> c = 0x2028 \<or> c = 0x2029"

definition is_space :: "code_unit \<Rightarrow> bool" where
  "is_space c \<longleftrightarrow> WhiteSpace c \<or> LineTerminator c"

definition trimStart :: "jsstring \<Rightarrow> jsstring" where
  "trimStart s = dropWhile is_space s"

definition trimEnd :: "jsstring \<Rightarrow> jsstring" where
  "trimEnd s = rev (dropWhile is_space (rev s))"

definition trim :: "jsstring \<Rightarrow> jsstring" where
  "trim s = trimEnd (trimStart s)"

text \<open>
  A JavaScript number is an IEEE double. The controller only ever produces numbers
  with \<open>parseInt\<close>, whose result is NaN or the double of an integer; \<open>Num n\<close>
  stands for the double of the integer \<open>n\<close>. Every integer of magnitude below
  \<open>2 ^ 53\<close> (a safe integer) is a double, so there the model computes the very
  value the code computes; for a longer digit string the code holds the double
  nearest to \<open>n\<close>, \<open>Infinity\<close> beyond the doubles. Which branch the code takes
  never depends on that: only NaN is tested. The zero \<open>-0\<close> is not told apart
  from \<open>0\<close>: the controller prints both as \<open>0\<close> and tests neither.
\<close>

datatype number = NaN | Num int


definition is_digit :: "code_unit \<Rightarrow> bool" where
  "is_digit c \<longleftrightarrow> 0x0030 \<le> c \<and> c \<le> 0x0039"

definition digit_value :: "code_unit \<Rightarrow> int" where
  "digit_value c = uint c - 48"

definition mathInt :: "jsstring \<Rightarrow> int" where
  "mathInt Z = foldl (\<lambda>a c. 10 * a + digit_value c) 0 Z"

text \<open>
  \<open>parseInt(string, 10)\<close>, the only way the source calls it: strip leading white
  space, read one optional sign, keep the longest prefix of decimal digits, and
  return NaN when that prefix is empty. Whatever follows the digits is ignored.
\<close>

definition parseInt :: "jsstring \<Rightarrow> number" where
  "parseInt inputString =
     (let S = trimStart inputString;
          sign = (if S \<noteq> [] \<and> hd S = 0x002D then - 1 else 1);
          S' = (if S \<noteq> [] \<and> (hd S = 0x002B \<or> hd S = 0x002D) then tl S else S);
          Z = takeWhile is_digit S'
      in if Z = [] then NaN else Num (sign * mathInt Z))"

text \<open>
  \<open>String(n)\<close> for an integer \<open>n\<close>: its decimal digits, with a minus sign when
  negative. This is what JavaScript prints for every safe integer.
\<close>

definition digit_unit :: "nat \<Rightarrow> code_unit" where
  "digit_unit d = of_nat (48 + d)"

fun digits :: "nat \<Rightarrow> jsstring" where
  "digits n = (if n < 10 then [digit_unit n]
               else digits (n div 10) @ [digit_unit (n mod 10)])"

declare digits.simps [simp del]

definition String_of :: "int \<Rightarrow> jsstring" where
  "String_of n = (if n < 0 then 0x002D # digits (nat (- n)) else digits (nat n))"


text \<open>
  The spec's words for a valid quantity, "the decimal representation of an
  integer": one optional sign and then decimal digits, nothing else. It is used
  only to compare the spec's wording with what \<open>parseInt\<close> accepts.
\<close>

definition unsigned_part :: "jsstring \<Rightarrow> jsstring" where
  "unsigned_part s = (if s \<noteq> [] \<and> (hd s = 0x002B \<or> hd s = 0x002D) then tl s else s)"

definition spec_integer_string :: "jsstring \<Rightarrow> bool" where
  "spec_integer_string s \<longleftrightarrow> unsigned_part s \<noteq> [] \<and> list_all is_digit (unsigned_part s)"

section \<open>The item store\<close>

record Item =
  item_id :: int
  item_name :: jsstring
  item_quantity :: int

datatype StoreError = StoreError

datatype call =
    FetchItems
  | InsertItem jsstring int
  | UpdateItem int jsstring int
  | DeleteItem int

text \<open>
  Everything outside the component's React state: the rows of the database, the
  store calls made so far (oldest first), the outcome of the store calls still to
  come (\<open>True\<close>: that call throws; after the end of the list every call succeeds),
  and the lines written with \<open>console.log\<close>.
\<close>

record world =
  rows :: "Item list"
  calls :: "call list"
  faults :: "bool list"
  console :: "string list"

definition fault :: "world \<Rightarrow> nat \<Rightarrow> bool" where
  "fault w n \<longleftrightarrow> n < length (faults w) \<and> faults w ! n"

definition called :: "call \<Rightarrow> world \<Rightarrow> world" where
  "called k w = w\<lparr>calls := calls w @ [k], faults := tl (faults w)\<rparr>"

definition console_log :: "string \<Rightarrow> world \<Rightarrow> world" where
  "console_log msg w = w\<lparr>console := console w @ [msg]\<rparr>"

definition fresh_id :: "Item list \<Rightarrow> int" where
  "fresh_id rs = foldr (\<lambda>r m. max (item_id r) m) rs 0 + 1"

text \<open>
  Modelled from the spec: the module \<open>data/db\<close> (\<open>fetchItems\<close>, \<open>insertItem\<close>,
  \<open>updateItem\<close>, \<open>deleteItem\<close> and the type \<open>Item\<close>) is imported by the controller
  and is not among the sources. Section 4.1 of the spec gives the four operations:
  fetch-all returns every row in a stable order; insert adds one row whose id the
  store assigns; update and delete act on the rows with the given id and succeed
  without effect when there is none; each of them may fail with a \<open>StoreError\<close>,
  and a failed call leaves the rows as they were.
\<close>

definition fetchItems :: "world \<Rightarrow> (StoreError + Item list) \<times> world" where
  "fetchItems w =
     (if fault w 0 then (Inl StoreError, called FetchItems w)
      else (Inr (rows w), called FetchItems w))"

definition insertItem :: "world \<Rightarrow> jsstring \<Rightarrow> int \<Rightarrow> (StoreError + unit) \<times> world" where
  "insertItem w n q =
     (if fault w 0 then (Inl StoreError, called (InsertItem n q) w)
      else (Inr (), (called (InsertItem n q) w)
              \<lparr>rows := rows w @ [\<lparr>item_id = fresh_id (rows w), item_name = n, item_quantity = q\<rparr>]\<rparr>))"

definition updateItem :: "world \<Rightarrow> int \<Rightarrow> jsstring \<Rightarrow> int \<Rightarrow> (StoreError + unit) \<times> world" where
  "updateItem w i n q =
     (if fault w 0 then (Inl StoreError, called (UpdateItem i n q) w)
      else (Inr (), (called (UpdateItem i n q) w)
              \<lparr>rows := map (\<lambda>r. if item_id r = i then r\<lparr>item_name := n, item_quantity := q\<rparr> else r)
                         (rows w)\<rparr>))"

definition deleteItem :: "world \<Rightarrow> int \<Rightarrow> (StoreError + unit) \<times> world" where
  "deleteItem w i =
     (if fault w 0 then (Inl StoreError, called (DeleteItem i) w)
      else (Inr (), (called (DeleteItem i) w)\<lparr>rows := filter (\<lambda>r. item_id r \<noteq> i) (rows w)\<rparr>))"

section \<open>The controller: \<open>app/index.tsx\<close>\<close>

text \<open>
  The four \<open>useState\<close> cells of \<open>App\<close>. A handler reads them as they are when it
  is invoked and returns them as its \<open>set...\<close> calls leave them. An \<open>async\<close>
  handler also returns how its promise settles: \<open>Inr ()\<close> when it resolves,
  \<open>Inl e\<close> when it rejects with \<open>e\<close>.
\<close>

record controller =
  name :: jsstring
  quantity :: jsstring
  editingId :: "int option"
  items :: "Item list"

type_synonym settled = "(StoreError + unit) \<times> controller \<times> world"

definition loadItems :: "controller \<Rightarrow> world \<Rightarrow> settled" where
  "loadItems c w =
     (case fetchItems w of
        (Inr value, w1) \<Rightarrow> (Inr (), c\<lparr>items := value\<rparr>, w1)
      | (Inl err, w1) \<Rightarrow> (Inr (), c, console_log ''Failed to fetch items'' w1))"

text \<open>
  \<open>saveItem\<close> is still defined in the component, although the button calls
  \<open>saveOrUpdate\<close>. It tests \<open>name.trim()\<close> and passes \<open>name\<close> itself to the store.
  Its \<open>catch\<close> writes two lines, the message and the error; the other handlers
  write one line, recorded here by its message.
\<close>

definition saveItem :: "controller \<Rightarrow> world \<Rightarrow> settled" where
  "saveItem c w =
     (if trim (name c) = [] then (Inr (), c, w)
      else case parseInt (quantity c) of
        NaN \<Rightarrow> (Inr (), c, w)
      | Num parsedQuantity \<Rightarrow>
          (case insertItem w (name c) parsedQuantity of
             (Inl err, w1) \<Rightarrow>
               (Inr (), c, console_log ''StoreError'' (console_log ''Failed to save item'' w1))
           | (Inr u, w1) \<Rightarrow>
               (case loadItems c w1 of
                  (Inl err, c2, w2) \<Rightarrow>
                    (Inr (), c2, console_log ''StoreError'' (console_log ''Failed to save item'' w2))
                | (Inr u', c2, w2) \<Rightarrow> (Inr (), c2\<lparr>name := [], quantity := []\<rparr>, w2))))"

definition saveOrUpdate :: "controller \<Rightarrow> world \<Rightarrow> settled" where
  "saveOrUpdate c w =
     (if trim (name c) = [] then (Inr (), c, w)
      else case parseInt (quantity c) of
        NaN \<Rightarrow> (Inr (), c, w)
      | Num parsedQuantity \<Rightarrow>
          (case (case editingId c of
                   None \<Rightarrow> insertItem w (trim (name c)) parsedQuantity
                 | Some i \<Rightarrow> updateItem w i (trim (name c)) parsedQuantity) of
             (Inl err, w1) \<Rightarrow> (Inr (), c, console_log ''Failed to save/update item'' w1)
           | (Inr u, w1) \<Rightarrow>
               (case loadItems c w1 of
                  (Inl err, c2, w2) \<Rightarrow> (Inr (), c2, console_log ''Failed to save/update item'' w2)
                | (Inr u', c2, w2) \<Rightarrow>
                    (Inr (), c2\<lparr>name := [], quantity := [], editingId := None\<rparr>, w2))))"

definition startEdit :: "controller \<Rightarrow> Item \<Rightarrow> controller" where
  "startEdit c item =
     c\<lparr>editingId := Some (item_id item), name := item_name item,
       quantity := String_of (item_quantity item)\<rparr>"

text \<open>
  \<open>confirmDelete\<close> shows an alert with two buttons. \<open>Cancel\<close> has no handler;
  \<open>Delete\<close> runs \<open>onPress\<close>, which compares the id with the \<open>editingId\<close> of
  the render that showed the alert. The alert is modal, so that is the state the
  handler runs in.
\<close>

datatype button = Cancel | Delete

definition onPress :: "controller \<Rightarrow> world \<Rightarrow> int \<Rightarrow> settled" where
  "onPress c w i =
     (case deleteItem w i of
        (Inl err, w1) \<Rightarrow> (Inr (), c, console_log ''Failed to delete item'' w1)
      | (Inr u, w1) \<Rightarrow>
          (case loadItems c w1 of
             (Inl err, c2, w2) \<Rightarrow> (Inr (), c2, console_log ''Failed to delete item'' w2)
           | (Inr u', c2, w2) \<Rightarrow>
               (Inr (),
                if editingId c = Some i then c2\<lparr>editingId := None, name := [], quantity := []\<rparr>
                else c2,
                w2)))"

definition confirmDelete :: "controller \<Rightarrow> world \<Rightarrow> int \<Rightarrow> button \<Rightarrow> settled" where
  "confirmDelete c w i b = (case b of Cancel \<Rightarrow> (Inr (), c, w) | Delete \<Rightarrow> onPress c w i)"

text \<open>The two parts of the state a handler leaves behind.\<close>

definition state_of :: "settled \<Rightarrow> controller" where
  "state_of r = fst (snd r)"

definition world_of :: "settled \<Rightarrow> world" where
  "world_of r = snd (snd r)"

text \<open>
  What the rendered component can do, as the JSX wires it: the effect that runs
  \<open>loadItems\<close> on mount, the two text inputs (\<open>onChangeText\<close> is \<open>setName\<close> and
  \<open>setQuantity\<close>), the button (\<open>onPress\<close> is \<open>saveOrUpdate\<close>), and the two icons of
  a row (\<open>startEdit(item)\<close> and \<open>confirmDelete(item.id)\<close> with the button chosen in
  the alert). Nothing calls \<open>saveItem\<close>. \<open>run\<close> handles a sequence of such events,
  each after the one before has settled.
\<close>

datatype event =
    Mount
  | ChangeName jsstring
  | ChangeQuantity jsstring
  | PressSave
  | PressEdit Item
  | PressDelete int button

definition dispatch :: "controller \<Rightarrow> world \<Rightarrow> event \<Rightarrow> controller \<times> world" where
  "dispatch c w e =
     (case e of
        Mount \<Rightarrow> snd (loadItems c w)
      | ChangeName t \<Rightarrow> (c\<lparr>name := t\<rparr>, w)
      | ChangeQuantity t \<Rightarrow> (c\<lparr>quantity := t\<rparr>, w)
      | PressSave \<Rightarrow> snd (saveOrUpdate c w)
      | PressEdit item \<Rightarrow> (startEdit c item, w)
      | PressDelete i b \<Rightarrow> snd (confirmDelete c w i b))"

fun run :: "controller \<Rightarrow> world \<Rightarrow> event list \<Rightarrow> controller \<times> world" where
  "run c w [] = (c, w)"
| "run c w (e # es) = (case dispatch c w e of (c', w') \<Rightarrow> run c' w' es)"

text \<open>What the store asks of a call: the name of an insert is trimmed and non-empty.\<close>

definition trimmed_insert :: "call \<Rightarrow> bool" where
  "trimmed_insert k =
     (case k of InsertItem n q \<Rightarrow> trim n = n \<and> n \<noteq> [] | _ \<Rightarrow> True)"

text \<open>Concrete inputs for the examples: a form with no list yet, and a store.\<close>

definition form :: "string \<Rightarrow> string \<Rightarrow> int option \<Rightarrow> controller" where
  "form n q e = \<lparr>name = js n, quantity = js q, editingId = e, items = []\<rparr>"

definition store :: "Item list \<Rightarrow> bool list \<Rightarrow> world" where
  "store rs fs = \<lparr>rows = rs, calls = [], faults = fs, console = []\<rparr>"

definition item :: "int \<Rightarrow> string \<Rightarrow> int \<Rightarrow> Item" where
  "item i n q = \<lparr>item_id = i, item_name = js n, item_quantity = q\<rparr>"

section \<open>Facts about the built-ins\<close>





lemma is_digit_not_space:
  assumes "is_digit c"
  shows "\<not> is_space c"
proof -
  have lo: "0x0030 \<le> c" and hi: "c \<le> 0x0039"
    using assms by (simp_all add: is_digit_def)
  have low: "c \<noteq> 0x0009 \<and> c \<noteq> 0x000A \<and> c \<noteq> 0x000B \<and> c \<noteq> 0x000C \<and> c \<noteq> 0x000D \<and> c \<noteq> 0x0020"
    using lo by auto
  have high: "c \<noteq> 0x00A0 \<and> c \<noteq> 0xFEFF \<and> c \<noteq> 0x1680 \<and> c \<noteq> 0x202F \<and> c \<noteq> 0x205F \<and>
      c \<noteq> 0x3000 \<and> c \<noteq> 0x2028 \<and> c \<noteq> 0x2029"
    using hi by auto
  have "\<not> 0x2000 \<le> c"
  proof
    assume "0x2000 \<le> c"
    then have "(0x2000 :: code_unit) \<le> 0x0039" using hi by (rule order_trans)
    then show False by simp
  qed
  with low high show ?thesis
    by (simp add: is_space_def WhiteSpace_def LineTerminator_def)
qed









lemma parseInt_NaN_iff:
  "parseInt s = NaN \<longleftrightarrow> takeWhile is_digit (unsigned_part (trimStart s)) = []"
  by (simp add: parseInt_def unsigned_part_def Let_def)

lemma spec_integer_string_parses:
  assumes "spec_integer_string s"
  shows "parseInt s \<noteq> NaN"
proof -
  from assms have digits: "unsigned_part s \<noteq> []" "is_digit (hd (unsigned_part s))"
    by (cases "unsigned_part s"; simp add: spec_integer_string_def)+
  then have "s \<noteq> []" by (auto simp: unsigned_part_def)
  have "\<not> is_space (hd s)"
  proof (cases "hd s = 0x002B \<or> hd s = 0x002D")
    case True
    then show ?thesis
      by (auto simp: is_space_def WhiteSpace_def LineTerminator_def)
  next
    case False
    with digits(2) have "is_digit (hd s)" by (simp add: unsigned_part_def)
    then show ?thesis by (rule is_digit_not_space)
  qed
  with \<open>s \<noteq> []\<close> have "trimStart s = s"
    by (cases s) (simp_all add: trimStart_def)
  with digits show ?thesis
    by (cases "unsigned_part s") (simp_all add: parseInt_NaN_iff)
qed

lemma trimEnd_head:
  assumes "s \<noteq> []" and "\<not> is_space (hd s)"
  shows "trimEnd s \<noteq> [] \<and> hd (trimEnd s) = hd s"
proof -
  obtain a t where s: "s = a # t" using assms(1) by (cases s) auto
  with assms(2) have "dropWhile is_space (rev t @ a # []) = dropWhile is_space (rev t) @ a # []"
    by (intro dropWhile_append3) simp
  with s show ?thesis by (simp add: trimEnd_def)
qed

lemma trimStart_trim: "trimStart (trim s) = trim s"
proof (cases "trimStart s = []")
  case True
  then have "trim s = []" by (simp add: trim_def trimEnd_def)
  then show ?thesis by (simp add: trimStart_def)
next
  case False
  then have "\<not> is_space (hd (trimStart s))"
    unfolding trimStart_def by (rule hd_dropWhile)
  with False have "trim s \<noteq> [] \<and> \<not> is_space (hd (trim s))"
    using trimEnd_head [of "trimStart s"] by (simp add: trim_def)
  then show ?thesis
    by (cases "trim s") (simp_all add: trimStart_def)
qed

lemma trim_idem: "trim (trim s) = trim s"
proof -
  have "trim (trim s) = trimEnd (trim s)"
    by (simp add: trim_def [of "trim s"] trimStart_trim)
  also have "\<dots> = trim s"
    by (simp add: trim_def trimEnd_def)
  finally show ?thesis .
qed

lemma fresh_id_upper: "r \<in> set rs \<Longrightarrow> item_id r < fresh_id rs"
  by (induction rs) (auto simp: fresh_id_def)

lemma fresh_id_fresh: "fresh_id rs \<notin> item_id ` set rs"
  using fresh_id_upper by fastforce

section \<open>Facts about the store\<close>

lemma fault_called [simp]: "fault (called k w) n = fault w (Suc n)"
  by (cases "faults w") (auto simp: fault_def called_def)

lemma fault_console_log [simp]: "fault (console_log m w) n = fault w n"
  by (simp add: fault_def console_log_def)

lemma fault_rows_update [simp]: "fault (w\<lparr>rows := rs\<rparr>) n = fault w n"
  by (simp add: fault_def)

lemma called_sel [simp]:
  "rows (called k w) = rows w" "calls (called k w) = calls w @ [k]"
  "console (called k w) = console w"
  by (simp_all add: called_def)

lemma console_log_sel [simp]:
  "rows (console_log m w) = rows w" "calls (console_log m w) = calls w"
  "console (console_log m w) = console w @ [m]"
  by (simp_all add: console_log_def)


lemma update_keeps_ids:
  "item_id \<circ> (\<lambda>r. if item_id r = i then r\<lparr>item_name := n, item_quantity := q\<rparr> else r) = item_id"
  by (rule ext) simp

lemmas store_defs = fetchItems_def insertItem_def updateItem_def deleteItem_def

lemmas handler_defs = loadItems_def saveOrUpdate_def onPress_def confirmDelete_def
  state_of_def world_of_def

lemmas builtin_defs = js_def trim_def trimEnd_def trimStart_def is_space_def WhiteSpace_def
  LineTerminator_def parseInt_def is_digit_def mathInt_def digit_value_def

lemmas example_defs = form_def store_def item_def fault_def called_def console_log_def
  fresh_id_def

section \<open>The claims\<close>

subsection \<open>C1: invalid input\<close>

text \<open>
  C1, as the spec words it: whenever the name is empty after trimming or the
  quantity is not an integer string, \<open>saveOrUpdate\<close> makes no store call and
  changes nothing. The second half fails: the quantity \<open>1.5\<close> is no integer, yet
  \<open>parseInt\<close> reads its prefix \<open>1\<close>, and the item is inserted with quantity 1.
\<close>

theorem C1_counterexample:
  "\<not> spec_integer_string (js ''1.5'') \<and>
   saveOrUpdate (form ''Apples'' ''1.5'' None) (store [] []) =
     (Inr (), (form [] [] None)\<lparr>items := [item 1 ''Apples'' 1]\<rparr>,
      (store [item 1 ''Apples'' 1] [])\<lparr>calls := [InsertItem (js ''Apples'') 1, FetchItems]\<rparr>)"
  by (simp add: spec_integer_string_def unsigned_part_def handler_defs store_defs
      builtin_defs example_defs)

text \<open>
  C1, amended: whenever the name is empty after trimming, or \<open>parseInt\<close> turns the
  quantity into NaN, \<open>saveOrUpdate\<close> resolves at once: the controller state and
  the world, with its list of store calls and its console, are what they were.
\<close>

theorem C1_invalid_input_is_noop:
  "trim (name c) = [] \<or> parseInt (quantity c) = NaN \<Longrightarrow> saveOrUpdate c w = (Inr (), c, w)"
  by (auto simp: saveOrUpdate_def)

theorem C1_invalid_input_witness:
  "saveOrUpdate (form ''  '' ''5'' None) (store [] []) =
     (Inr (), form ''  '' ''5'' None, store [] []) \<and>
   saveOrUpdate (form ''Apples'' ''five'' (Some 3)) (store [] []) =
     (Inr (), form ''Apples'' ''five'' (Some 3), store [] [])"
  using C1_invalid_input_is_noop [of "form ''  '' ''5'' None" "store [] []"]
    C1_invalid_input_is_noop [of "form ''Apples'' ''five'' (Some 3)" "store [] []"]
  by (simp add: form_def builtin_defs)

subsection \<open>C2: a valid submit while creating\<close>

text \<open>
  C2, as the spec words it: every valid submit in the idle-create state adds exactly
  one item to the store. It does not when the insert call fails: the handler
  catches the error, and the store holds what it held.
\<close>

theorem C2_counterexample:
  "trim (js ''Apples'') \<noteq> [] \<and> parseInt (js ''5'') = Num 5 \<and>
   saveOrUpdate (form ''Apples'' ''5'' None) (store [] [True]) =
     (Inr (), form ''Apples'' ''5'' None,
      (store [] [])\<lparr>calls := [InsertItem (js ''Apples'') 5],
                    console := [''Failed to save/update item'']\<rparr>)"
  by (simp add: handler_defs store_defs builtin_defs example_defs)

text \<open>
  C2, amended: for a name that is non-empty after trimming and a quantity that
  \<open>parseInt\<close> reads as \<open>q\<close>, a submit with \<open>editingId\<close> null whose insert call
  succeeds makes one insert call and adds exactly one row, last: its name is the
  trimmed name, its quantity is \<open>q\<close>, its id is the store's and is the id of no
  row that was there, and the store has one row more.
\<close>

theorem C2_insert_adds_one_item:
  assumes "trim (name c) \<noteq> []" and "parseInt (quantity c) = Num q"
    and "editingId c = None" and "\<not> fault w 0"
  shows "rows (world_of (saveOrUpdate c w)) =
           rows w @ [\<lparr>item_id = fresh_id (rows w), item_name = trim (name c), item_quantity = q\<rparr>] \<and>
         fresh_id (rows w) \<notin> item_id ` set (rows w) \<and>
         length (rows (world_of (saveOrUpdate c w))) = length (rows w) + 1 \<and>
         calls (world_of (saveOrUpdate c w)) = calls w @ [InsertItem (trim (name c)) q, FetchItems]"
  using assms fresh_id_fresh [of "rows w"] by (simp add: handler_defs store_defs)

theorem C2_insert_witness:
  "trim (name (form '' Apples '' ''5'' None)) \<noteq> [] \<and>
   parseInt (quantity (form '' Apples '' ''5'' None)) = Num 5 \<and>
   rows (world_of (saveOrUpdate (form '' Apples '' ''5'' None) (store [item 4 ''Pears'' 2] []))) =
     [item 4 ''Pears'' 2, item 5 ''Apples'' 5] \<and>
   calls (world_of (saveOrUpdate (form '' Apples '' ''5'' None) (store [item 4 ''Pears'' 2] []))) =
     [InsertItem (js ''Apples'') 5, FetchItems]"
  using C2_insert_adds_one_item [of "form '' Apples '' ''5'' None" 5 "store [item 4 ''Pears'' 2] []"]
  by (simp add: builtin_defs example_defs)

subsection \<open>C3: edit, then submit at once\<close>




subsection \<open>C4: delete, confirmed or cancelled\<close>

text \<open>
  C4, as the spec words it: a confirmed delete removes the item, re-fetches, and
  resets the form if and only if the deleted id is the edited one. When the delete
  call fails, the row stays, no fetch follows, and the form keeps editing id 1.
\<close>

theorem C4_counterexample:
  "confirmDelete ((form ''Apples'' ''5'' (Some 1))\<lparr>items := [item 1 ''Apples'' 5]\<rparr>)
      (store [item 1 ''Apples'' 5] [True]) 1 Delete =
     (Inr (), (form ''Apples'' ''5'' (Some 1))\<lparr>items := [item 1 ''Apples'' 5]\<rparr>,
      (store [item 1 ''Apples'' 5] [])\<lparr>calls := [DeleteItem 1],
          console := [''Failed to delete item'']\<rparr>)"
  by (simp add: handler_defs store_defs example_defs)

text \<open>
  C4, amended: \<open>Cancel\<close> changes neither the controller nor the world. \<open>Delete\<close>,
  when the delete call succeeds, calls delete with that id and then fetch, leaves
  exactly the rows with another id, shows them if the fetch succeeds, and sets the
  form to empty fields and \<open>editingId\<close> null if the id is the edited one, and
  leaves name, quantity and \<open>editingId\<close> as they are if it is not.
\<close>

theorem C4_confirm_and_cancel:
  "confirmDelete c w i Cancel = (Inr (), c, w) \<and>
   (\<not> fault w 0 \<longrightarrow>
      calls (world_of (confirmDelete c w i Delete)) = calls w @ [DeleteItem i, FetchItems] \<and>
      rows (world_of (confirmDelete c w i Delete)) = filter (\<lambda>r. item_id r \<noteq> i) (rows w) \<and>
      items (state_of (confirmDelete c w i Delete)) =
        (if fault w 1 then items c else filter (\<lambda>r. item_id r \<noteq> i) (rows w)) \<and>
      name (state_of (confirmDelete c w i Delete)) =
        (if editingId c = Some i then [] else name c) \<and>
      quantity (state_of (confirmDelete c w i Delete)) =
        (if editingId c = Some i then [] else quantity c) \<and>
      editingId (state_of (confirmDelete c w i Delete)) =
        (if editingId c = Some i then None else editingId c))"
  by (simp add: handler_defs store_defs)

theorem C4_confirm_and_cancel_witness:
  "\<not> fault (store [item 1 ''Apples'' 5, item 2 ''Figs'' 0] []) 0 \<and>
   calls (world_of (confirmDelete (form ''Apples'' ''5'' (Some 1))
      (store [item 1 ''Apples'' 5, item 2 ''Figs'' 0] []) 1 Delete)) = [DeleteItem 1, FetchItems] \<and>
   rows (world_of (confirmDelete (form ''Apples'' ''5'' (Some 1))
      (store [item 1 ''Apples'' 5, item 2 ''Figs'' 0] []) 1 Delete)) = [item 2 ''Figs'' 0] \<and>
   items (state_of (confirmDelete (form ''Apples'' ''5'' (Some 1))
      (store [item 1 ''Apples'' 5, item 2 ''Figs'' 0] []) 1 Delete)) = [item 2 ''Figs'' 0] \<and>
   name (state_of (confirmDelete (form ''Apples'' ''5'' (Some 1))
      (store [item 1 ''Apples'' 5, item 2 ''Figs'' 0] []) 1 Delete)) = [] \<and>
   editingId (state_of (confirmDelete (form ''Apples'' ''5'' (Some 1))
      (store [item 1 ''Apples'' 5, item 2 ''Figs'' 0] []) 1 Delete)) = None \<and>
   confirmDelete (form ''Apples'' ''5'' (Some 1))
      (store [item 1 ''Apples'' 5, item 2 ''Figs'' 0] []) 1 Cancel =
     (Inr (), form ''Apples'' ''5'' (Some 1), store [item 1 ''Apples'' 5, item 2 ''Figs'' 0] [])"
proof -
  let ?c = "form ''Apples'' ''5'' (Some 1)"
  let ?w = "store [item 1 ''Apples'' 5, item 2 ''Figs'' 0] []"
  have ok: "\<not> fault ?w 0" "\<not> fault ?w 1"
    by (simp_all add: store_def fault_def)
  have given: "rows ?w = [item 1 ''Apples'' 5, item 2 ''Figs'' 0]" "calls ?w = []"
      "editingId ?c = Some 1" "item_id (item 1 ''Apples'' 5) = 1" "item_id (item 2 ''Figs'' 0) = 2"
    by (simp_all add: store_def form_def item_def)
  from C4_confirm_and_cancel [of ?c ?w 1] ok given show ?thesis
    by simp
qed

subsection \<open>C5: what a successful submit leaves behind\<close>

text \<open>
  C5: on valid input, when the insert (no \<open>editingId\<close>) or the update (of
  \<open>editingId\<close>) succeeds, \<open>saveOrUpdate\<close> makes exactly that call and then a fetch,
  empties both form fields and sets \<open>editingId\<close> to null; the list is the store's
  rows unless the fetch itself fails.
\<close>

theorem C5_success_resets_form:
  assumes "trim (name c) \<noteq> []" and "parseInt (quantity c) = Num q" and "\<not> fault w 0"
  shows "calls (world_of (saveOrUpdate c w)) =
           calls w @ [case editingId c of None \<Rightarrow> InsertItem (trim (name c)) q
                      | Some i \<Rightarrow> UpdateItem i (trim (name c)) q, FetchItems] \<and>
         name (state_of (saveOrUpdate c w)) = [] \<and>
         quantity (state_of (saveOrUpdate c w)) = [] \<and>
         editingId (state_of (saveOrUpdate c w)) = None \<and>
         items (state_of (saveOrUpdate c w)) =
           (if fault w 1 then items c else rows (world_of (saveOrUpdate c w)))"
  using assms by (cases "editingId c") (simp_all add: handler_defs store_defs)

theorem C5_success_witness:
  "trim (name (form ''Apples'' ''7'' (Some 1))) \<noteq> [] \<and>
   parseInt (quantity (form ''Apples'' ''7'' (Some 1))) = Num 7 \<and>
   \<not> fault (store [item 1 ''Apples'' 5] []) 0 \<and>
   calls (world_of (saveOrUpdate (form ''Apples'' ''7'' (Some 1)) (store [item 1 ''Apples'' 5] []))) =
     [UpdateItem 1 (js ''Apples'') 7, FetchItems] \<and>
   name (state_of (saveOrUpdate (form ''Apples'' ''7'' (Some 1)) (store [item 1 ''Apples'' 5] []))) = [] \<and>
   quantity (state_of (saveOrUpdate (form ''Apples'' ''7'' (Some 1)) (store [item 1 ''Apples'' 5] []))) = [] \<and>
   editingId (state_of (saveOrUpdate (form ''Apples'' ''7'' (Some 1)) (store [item 1 ''Apples'' 5] []))) = None"
  using C5_success_resets_form [of "form ''Apples'' ''7'' (Some 1)" 7 "store [item 1 ''Apples'' 5] []"]
  by (simp add: builtin_defs example_defs)

subsection \<open>C6: the list after a mutation\<close>

text \<open>
  C6, as the spec words it: after every successful mutation the list equals the
  store's contents. When the insert succeeds and the fetch after it fails,
  \<open>loadItems\<close> catches the error: the store has the new row and the list has not.
\<close>

theorem C6_counterexample:
  "items (state_of (saveOrUpdate (form ''Apples'' ''5'' None) (store [] [False, True]))) = [] \<and>
   rows (world_of (saveOrUpdate (form ''Apples'' ''5'' None) (store [] [False, True]))) =
     [item 1 ''Apples'' 5]"
  by (simp add: handler_defs store_defs builtin_defs example_defs)

text \<open>
  C6, amended: after a successful insert, update or delete whose re-fetch succeeds
  too, the list equals the rows of the store; if the ids of the rows were unique
  before, the ids of the list are unique.
\<close>

theorem C6_list_is_store_after_refetch:
  assumes "\<not> fault w 0" and "\<not> fault w 1"
  shows "(trim (name c) \<noteq> [] \<and> parseInt (quantity c) \<noteq> NaN \<longrightarrow>
            items (state_of (saveOrUpdate c w)) = rows (world_of (saveOrUpdate c w)) \<and>
            (distinct (map item_id (rows w)) \<longrightarrow>
               distinct (map item_id (items (state_of (saveOrUpdate c w)))))) \<and>
         items (state_of (confirmDelete c w i Delete)) = rows (world_of (confirmDelete c w i Delete)) \<and>
         (distinct (map item_id (rows w)) \<longrightarrow>
            distinct (map item_id (items (state_of (confirmDelete c w i Delete)))))"
proof -
  have del: "items (state_of (confirmDelete c w i Delete)) =
      rows (world_of (confirmDelete c w i Delete))"
    using assms by (simp add: handler_defs store_defs)
  have del_distinct: "distinct (map item_id (rows w)) \<longrightarrow>
      distinct (map item_id (items (state_of (confirmDelete c w i Delete))))"
    using assms by (simp add: handler_defs store_defs distinct_map_filter)
  have sub: "items (state_of (saveOrUpdate c w)) = rows (world_of (saveOrUpdate c w)) \<and>
      (distinct (map item_id (rows w)) \<longrightarrow>
         distinct (map item_id (items (state_of (saveOrUpdate c w)))))"
    if valid: "trim (name c) \<noteq> []" "parseInt (quantity c) \<noteq> NaN"
  proof -
    from valid(2) obtain q where q: "parseInt (quantity c) = Num q"
      by (cases "parseInt (quantity c)") auto
    show ?thesis
    proof (cases "editingId c")
      case None
      with valid(1) q assms fresh_id_fresh [of "rows w"] show ?thesis
        by (simp add: handler_defs store_defs)
    next
      case (Some j)
      with valid(1) q assms show ?thesis
        by (simp add: handler_defs store_defs update_keeps_ids)
    qed
  qed
  from del del_distinct sub show ?thesis by blast
qed

theorem C6_list_is_store_witness:
  "\<not> fault (store [item 4 ''Pears'' 2] [False, False]) 0 \<and>
   \<not> fault (store [item 4 ''Pears'' 2] [False, False]) 1 \<and>
   trim (name (form ''Apples'' ''5'' None)) \<noteq> [] \<and>
   parseInt (quantity (form ''Apples'' ''5'' None)) \<noteq> NaN \<and>
   distinct (map item_id (rows (store [item 4 ''Pears'' 2] [False, False]))) \<and>
   items (state_of (saveOrUpdate (form ''Apples'' ''5'' None) (store [item 4 ''Pears'' 2] [False, False]))) =
     rows (world_of (saveOrUpdate (form ''Apples'' ''5'' None) (store [item 4 ''Pears'' 2] [False, False]))) \<and>
   distinct (map item_id
     (items (state_of (saveOrUpdate (form ''Apples'' ''5'' None) (store [item 4 ''Pears'' 2] [False, False]))))) \<and>
   items (state_of (confirmDelete (form ''Apples'' ''5'' None) (store [item 4 ''Pears'' 2] [False, False]) 4 Delete)) =
     rows (world_of (confirmDelete (form ''Apples'' ''5'' None) (store [item 4 ''Pears'' 2] [False, False]) 4 Delete))"
proof -
  let ?c = "form ''Apples'' ''5'' None"
  let ?w = "store [item 4 ''Pears'' 2] [False, False]"
  have ok: "\<not> fault ?w 0" "\<not> fault ?w 1"
    by (simp_all add: store_def fault_def)
  have valid: "trim (name ?c) \<noteq> []" "parseInt (quantity ?c) \<noteq> NaN"
    by (simp_all add: form_def builtin_defs)
  have unique: "distinct (map item_id (rows ?w))"
    by (simp add: store_def)
  from C6_list_is_store_after_refetch [OF ok, of ?c 4] ok valid unique show ?thesis
    by blast
qed

subsection \<open>C7: store errors\<close>

text \<open>
  C7: the promise of \<open>loadItems\<close>, \<open>saveOrUpdate\<close> and the \<open>Delete\<close> handler
  always resolves, whatever the store does. When the first store call of a handler
  fails (the fetch of \<open>loadItems\<close>, the insert or update of \<open>saveOrUpdate\<close>, the
  delete of \<open>confirmDelete\<close>), the controller state is unchanged, and the world
  differs by that one call and one console line only. When the mutation succeeds
  and the fetch after it fails, the list is unchanged and the fetch's line is
  written.
\<close>

theorem C7_store_errors_are_swallowed:
  "fst (loadItems c w) = Inr () \<and> fst (saveOrUpdate c w) = Inr () \<and>
   fst (confirmDelete c w i b) = Inr () \<and>
   (fault w 0 \<longrightarrow>
      loadItems c w = (Inr (), c, console_log ''Failed to fetch items'' (called FetchItems w)) \<and>
      confirmDelete c w i Delete =
        (Inr (), c, console_log ''Failed to delete item'' (called (DeleteItem i) w)) \<and>
      (trim (name c) \<noteq> [] \<and> parseInt (quantity c) = Num q \<longrightarrow>
         saveOrUpdate c w =
           (Inr (), c,
            console_log ''Failed to save/update item''
              (called (case editingId c of None \<Rightarrow> InsertItem (trim (name c)) q
                       | Some j \<Rightarrow> UpdateItem j (trim (name c)) q) w)))) \<and>
   (\<not> fault w 0 \<and> fault w 1 \<longrightarrow>
      items (state_of (confirmDelete c w i Delete)) = items c \<and>
      console (world_of (confirmDelete c w i Delete)) = console w @ [''Failed to fetch items''] \<and>
      (trim (name c) \<noteq> [] \<and> parseInt (quantity c) = Num q \<longrightarrow>
         items (state_of (saveOrUpdate c w)) = items c \<and>
         console (world_of (saveOrUpdate c w)) = console w @ [''Failed to fetch items'']))"
proof -
  have load: "fst (loadItems c' w') = Inr ()" for c' w'
    by (simp add: loadItems_def fetchItems_def)
  have submit: "fst (saveOrUpdate c w) = Inr ()"
    by (simp add: saveOrUpdate_def loadItems_def store_defs split: number.splits option.splits)
  have delete: "fst (confirmDelete c w i b) = Inr ()"
    by (cases b) (simp_all add: confirmDelete_def onPress_def loadItems_def store_defs)
  have failing: "fault w 0 \<longrightarrow>
      loadItems c w = (Inr (), c, console_log ''Failed to fetch items'' (called FetchItems w)) \<and>
      confirmDelete c w i Delete =
        (Inr (), c, console_log ''Failed to delete item'' (called (DeleteItem i) w)) \<and>
      (trim (name c) \<noteq> [] \<and> parseInt (quantity c) = Num q \<longrightarrow>
         saveOrUpdate c w =
           (Inr (), c,
            console_log ''Failed to save/update item''
              (called (case editingId c of None \<Rightarrow> InsertItem (trim (name c)) q
                       | Some j \<Rightarrow> UpdateItem j (trim (name c)) q) w)))"
    by (cases "editingId c") (simp_all add: handler_defs store_defs)
  have refetch: "\<not> fault w 0 \<and> fault w 1 \<longrightarrow>
      items (state_of (confirmDelete c w i Delete)) = items c \<and>
      console (world_of (confirmDelete c w i Delete)) = console w @ [''Failed to fetch items''] \<and>
      (trim (name c) \<noteq> [] \<and> parseInt (quantity c) = Num q \<longrightarrow>
         items (state_of (saveOrUpdate c w)) = items c \<and>
         console (world_of (saveOrUpdate c w)) = console w @ [''Failed to fetch items''])"
    by (cases "editingId c") (simp_all add: handler_defs store_defs)
  from load [of c w] submit delete failing refetch show ?thesis by blast
qed

theorem C7_store_errors_witness:
  "fault (store [item 1 ''Figs'' 2] [True]) 0 \<and>
   trim (name (form ''Apples'' ''5'' None)) \<noteq> [] \<and>
   parseInt (quantity (form ''Apples'' ''5'' None)) = Num 5 \<and>
   saveOrUpdate (form ''Apples'' ''5'' None) (store [item 1 ''Figs'' 2] [True]) =
     (Inr (), form ''Apples'' ''5'' None,
      (store [item 1 ''Figs'' 2] [])\<lparr>calls := [InsertItem (js ''Apples'') 5],
          console := [''Failed to save/update item'']\<rparr>) \<and>
   loadItems (form ''Apples'' ''5'' None) (store [item 1 ''Figs'' 2] [True]) =
     (Inr (), form ''Apples'' ''5'' None,
      (store [item 1 ''Figs'' 2] [])\<lparr>calls := [FetchItems], console := [''Failed to fetch items'']\<rparr>) \<and>
   confirmDelete (form ''Apples'' ''5'' None) (store [item 1 ''Figs'' 2] [True]) 1 Delete =
     (Inr (), form ''Apples'' ''5'' None,
      (store [item 1 ''Figs'' 2] [])\<lparr>calls := [DeleteItem 1], console := [''Failed to delete item'']\<rparr>) \<and>
   fault (store [] [False, True]) 1 \<and>
   items (state_of (saveOrUpdate (form ''Apples'' ''5'' None) (store [] [False, True]))) = [] \<and>
   console (world_of (saveOrUpdate (form ''Apples'' ''5'' None) (store [] [False, True]))) =
     [''Failed to fetch items'']"
  using C7_store_errors_are_swallowed [of "form ''Apples'' ''5'' None" "store [item 1 ''Figs'' 2] [True]" 1 Delete 5]
    C7_store_errors_are_swallowed [of "form ''Apples'' ''5'' None" "store [] [False, True]" 1 Delete 5]
  by (simp add: builtin_defs example_defs)

subsection \<open>C8: the name passed to insert\<close>

text \<open>
  The store calls a handler adds to the trace, and that the inserts among them
  carry a trimmed, non-empty name; then the same for one event and for a run.
\<close>

lemma saveOrUpdate_new_calls:
  "\<exists>ks. calls (world_of (saveOrUpdate c w)) = calls w @ ks \<and> list_all trimmed_insert ks"
proof (cases "trim (name c) = [] \<or> parseInt (quantity c) = NaN")
  case True
  then have "saveOrUpdate c w = (Inr (), c, w)"
    by (auto simp: saveOrUpdate_def)
  then show ?thesis by (simp add: world_of_def)
next
  case False
  then obtain p where p: "trim (name c) \<noteq> []" "parseInt (quantity c) = Num p"
    by (cases "parseInt (quantity c)") auto
  let ?k = "case editingId c of None \<Rightarrow> InsertItem (trim (name c)) p
            | Some i \<Rightarrow> UpdateItem i (trim (name c)) p"
  have "calls (world_of (saveOrUpdate c w)) =
      calls w @ ?k # (if fault w 0 then [] else [FetchItems])"
    using p by (cases "editingId c") (simp_all add: handler_defs store_defs)
  moreover have "list_all trimmed_insert (?k # (if fault w 0 then [] else [FetchItems]))"
    using p(1) by (cases "editingId c") (simp_all add: trimmed_insert_def trim_idem)
  ultimately show ?thesis by blast
qed

lemma loadItems_new_calls:
  "\<exists>ks. calls (world_of (loadItems c w)) = calls w @ ks \<and> list_all trimmed_insert ks"
proof -
  have "calls (world_of (loadItems c w)) = calls w @ [FetchItems]"
    by (simp add: handler_defs store_defs)
  moreover have "list_all trimmed_insert [FetchItems]"
    by (simp add: trimmed_insert_def)
  ultimately show ?thesis by blast
qed

lemma confirmDelete_new_calls:
  "\<exists>ks. calls (world_of (confirmDelete c w i b)) = calls w @ ks \<and> list_all trimmed_insert ks"
proof (cases b)
  case Cancel
  then have "calls (world_of (confirmDelete c w i b)) = calls w @ []"
    by (simp add: handler_defs)
  moreover have "list_all trimmed_insert []" by simp
  ultimately show ?thesis by blast
next
  case Delete
  then have "calls (world_of (confirmDelete c w i b)) =
      calls w @ DeleteItem i # (if fault w 0 then [] else [FetchItems])"
    by (simp add: handler_defs store_defs)
  moreover have "list_all trimmed_insert (DeleteItem i # (if fault w 0 then [] else [FetchItems]))"
    by (simp add: trimmed_insert_def)
  ultimately show ?thesis by blast
qed

lemma dispatch_new_calls:
  "\<exists>ks. calls (snd (dispatch c w e)) = calls w @ ks \<and> list_all trimmed_insert ks"
proof (cases e)
  case Mount
  then show ?thesis
    using loadItems_new_calls [of c w] by (simp add: dispatch_def world_of_def)
next
  case PressSave
  then show ?thesis
    using saveOrUpdate_new_calls [of c w] by (simp add: dispatch_def world_of_def)
next
  case (PressDelete i b)
  then show ?thesis
    using confirmDelete_new_calls [of c w i b] by (simp add: dispatch_def world_of_def)
qed (simp_all add: dispatch_def)

lemma run_new_calls:
  "\<exists>ks. calls (snd (run c w es)) = calls w @ ks \<and> list_all trimmed_insert ks"
proof (induction es arbitrary: c w)
  case Nil
  show ?case by simp
next
  case (Cons e es)
  obtain c' w' where d: "dispatch c w e = (c', w')" by (cases "dispatch c w e")
  from dispatch_new_calls [of c w e] d obtain ks
    where ks: "calls w' = calls w @ ks" "list_all trimmed_insert ks" by auto
  from Cons.IH [of c' w'] obtain ks'
    where ks': "calls (snd (run c' w' es)) = calls w' @ ks'" "list_all trimmed_insert ks'"
    by blast
  from d ks ks' have "calls (snd (run c w (e # es))) = calls w @ (ks @ ks')"
      "list_all trimmed_insert (ks @ ks')"
    by simp_all
  then show ?case by blast
qed

text \<open>
  C8: every call to the store's insert that the controller makes carries a name
  that is equal to its own trim and non-empty. The calls the controller makes are
  those a run of events adds to the trace of store calls: whatever the state and
  the store at the start, whatever the events and whichever store calls fail, an
  insert among the added calls has such a name.
\<close>

theorem C8_every_insert_is_trimmed:
  assumes "InsertItem n q \<in> set (drop (length (calls w)) (calls (snd (run c w es))))"
  shows "trim n = n \<and> n \<noteq> []"
proof -
  from run_new_calls [of c w es] obtain ks
    where ks: "calls (snd (run c w es)) = calls w @ ks" "list_all trimmed_insert ks" by blast
  with assms have "InsertItem n q \<in> set ks" by simp
  with ks(2) have "trimmed_insert (InsertItem n q)" by (simp add: list_all_iff)
  then show ?thesis by (simp add: trimmed_insert_def)
qed

theorem C8_every_insert_witness:
  "calls (snd (run (form [] [] None) (store [] [])
      [Mount, ChangeName (js ''  Apples ''), ChangeQuantity (js ''5''), PressSave])) =
     [FetchItems, InsertItem (js ''Apples'') 5, FetchItems] \<and>
   trim (js ''Apples'') = js ''Apples'' \<and> js ''Apples'' \<noteq> []"
proof -
  have trace: "calls (snd (run (form [] [] None) (store [] [])
      [Mount, ChangeName (js ''  Apples ''), ChangeQuantity (js ''5''), PressSave])) =
     [FetchItems, InsertItem (js ''Apples'') 5, FetchItems]"
    by (simp add: dispatch_def handler_defs store_defs builtin_defs example_defs)
  have made: "InsertItem (js ''Apples'') 5 \<in> set (drop (length (calls (store [] [])))
      (calls (snd (run (form [] [] None) (store [] [])
        [Mount, ChangeName (js ''  Apples ''), ChangeQuantity (js ''5''), PressSave]))))"
    unfolding trace by (simp add: store_def)
  from C8_every_insert_is_trimmed [OF made] trace show ?thesis by simp
qed

subsection \<open>C9: a digit prefix is enough\<close>

text \<open>
  C9: there is a quantity string that is not the decimal representation of an
  integer and still passes validation, namely \<open>7x\<close>: \<open>parseInt\<close> returns 7, and
  \<open>saveOrUpdate\<close> inserts the item with quantity 7.
\<close>

theorem C9_digit_prefix_is_stored:
  "\<not> spec_integer_string (js ''7x'') \<and> trim (js ''Apples'') \<noteq> [] \<and>
   parseInt (js ''7x'') = Num 7 \<and>
   saveOrUpdate (form ''Apples'' ''7x'' None) (store [] []) =
     (Inr (), (form [] [] None)\<lparr>items := [item 1 ''Apples'' 7]\<rparr>,
      (store [item 1 ''Apples'' 7] [])\<lparr>calls := [InsertItem (js ''Apples'') 7, FetchItems]\<rparr>)"
  by (simp add: spec_integer_string_def unsigned_part_def handler_defs store_defs
      builtin_defs example_defs)

subsection \<open>C10: deleting another item\<close>

text \<open>
  C10: when the confirmed id is not the edited id (or nothing is edited), the
  controller state after \<open>Delete\<close> differs from the state before in the list at
  most: name, quantity and \<open>editingId\<close> are unchanged.
\<close>

theorem C10_other_delete_keeps_form:
  "editingId c \<noteq> Some i \<Longrightarrow>
     name (state_of (confirmDelete c w i Delete)) = name c \<and>
     quantity (state_of (confirmDelete c w i Delete)) = quantity c \<and>
     editingId (state_of (confirmDelete c w i Delete)) = editingId c"
  by (simp add: handler_defs store_defs)

theorem C10_other_delete_witness:
  "editingId (form ''Pears'' ''3'' (Some 2)) \<noteq> Some 1 \<and>
   name (state_of (confirmDelete (form ''Pears'' ''3'' (Some 2))
      (store [item 1 ''Apples'' 5, item 2 ''Pear'' 3] []) 1 Delete)) = js ''Pears'' \<and>
   quantity (state_of (confirmDelete (form ''Pears'' ''3'' (Some 2))
      (store [item 1 ''Apples'' 5, item 2 ''Pear'' 3] []) 1 Delete)) = js ''3'' \<and>
   editingId (state_of (confirmDelete (form ''Pears'' ''3'' (Some 2))
      (store [item 1 ''Apples'' 5, item 2 ''Pear'' 3] []) 1 Delete)) = Some 2"
proof -
  have other: "editingId (form ''Pears'' ''3'' (Some 2)) \<noteq> Some 1"
    by (simp add: form_def)
  have given: "name (form ''Pears'' ''3'' (Some 2)) = js ''Pears''"
      "quantity (form ''Pears'' ''3'' (Some 2)) = js ''3''"
      "editingId (form ''Pears'' ''3'' (Some 2)) = Some 2"
    by (simp_all add: form_def)
  from C10_other_delete_keeps_form [OF other, of "store [item 1 ''Apples'' 5, item 2 ''Pear'' 3] []"]
    other given show ?thesis
    by simp
qed

subsection \<open>Further properties\<close>

text \<open>
  Every insert and update call that \<open>saveOrUpdate\<close> makes carries a name that is
  non-empty and equal to its own trim.
\<close>

theorem saveOrUpdate_passes_trimmed_name:
  assumes "calls (world_of (saveOrUpdate c w)) = calls w @ ks"
    and "InsertItem n q \<in> set ks \<or> UpdateItem j n q \<in> set ks"
  shows "trim n = n \<and> n \<noteq> []"
proof (cases "trim (name c) = [] \<or> parseInt (quantity c) = NaN")
  case True
  then have "saveOrUpdate c w = (Inr (), c, w)"
    by (auto simp: saveOrUpdate_def)
  with assms show ?thesis by (simp add: world_of_def)
next
  case False
  then obtain p where p: "trim (name c) \<noteq> []" "parseInt (quantity c) = Num p"
    by (cases "parseInt (quantity c)") auto
  have "calls (world_of (saveOrUpdate c w)) =
      calls w @ (case editingId c of None \<Rightarrow> InsertItem (trim (name c)) p
                 | Some i \<Rightarrow> UpdateItem i (trim (name c)) p) #
        (if fault w 0 then [] else [FetchItems])"
    using p by (cases "editingId c") (simp_all add: handler_defs store_defs)
  with assms(1) have "ks = (case editingId c of None \<Rightarrow> InsertItem (trim (name c)) p
                 | Some i \<Rightarrow> UpdateItem i (trim (name c)) p) #
        (if fault w 0 then [] else [FetchItems])"
    by simp
  with assms(2) have "n = trim (name c)"
    by (cases "editingId c") (auto split: if_splits)
  with p(1) show ?thesis by (simp add: trim_idem)
qed

theorem saveOrUpdate_passes_trimmed_name_witness:
  "trim (js ''Apples'') = js ''Apples'' \<and> js ''Apples'' \<noteq> []"
  using saveOrUpdate_passes_trimmed_name [of "form ''  Apples '' ''5'' None" "store [] []"
      "[InsertItem (js ''Apples'') 5, FetchItems]" "js ''Apples''" 5 0]
  by (simp add: handler_defs store_defs builtin_defs example_defs)

text \<open>
  \<open>saveItem\<close>, which no event reaches, tests the trimmed name and passes the
  untrimmed one: called with the name \<open>" Apples"\<close> it would insert \<open>" Apples"\<close>.
\<close>

lemma saveItem_passes_untrimmed_name:
  "trim (js '' Apples'') \<noteq> js '' Apples'' \<and>
   calls (world_of (saveItem (form '' Apples'' ''5'' None) (store [] []))) =
     [InsertItem (js '' Apples'') 5, FetchItems]"
  by (simp add: saveItem_def handler_defs store_defs builtin_defs example_defs)

text \<open>
  The scenario of the spec's section 8: insert \<open>("Apples", "5")\<close>, edit the item
  to quantity 7, delete it.
\<close>

theorem scenario_insert_edit_delete:
  "state_of (saveOrUpdate (form ''Apples'' ''5'' None) (store [] [])) =
     (form [] [] None)\<lparr>items := [item 1 ''Apples'' 5]\<rparr> \<and>
   state_of (saveOrUpdate ((startEdit (form [] [] None) (item 1 ''Apples'' 5))\<lparr>quantity := js ''7''\<rparr>)
      (store [item 1 ''Apples'' 5] [])) =
     (form [] [] None)\<lparr>items := [item 1 ''Apples'' 7]\<rparr> \<and>
   state_of (confirmDelete ((form [] [] None)\<lparr>items := [item 1 ''Apples'' 7]\<rparr>)
      (store [item 1 ''Apples'' 7] []) 1 Delete) =
     form [] [] None"
  by (simp add: startEdit_def handler_defs store_defs builtin_defs example_defs)

end
